theory Spec2Isabelle
  imports Main "HOL-Library.Word"
begin

section \<open>Inspector callback stubs\<close>

text \<open>
  The source file defines nine functions with C linkage. Eight of them have an empty
  body and return \<^verbatim>\<open>void\<close>; the ninth, \<^verbatim>\<open>generateUniqueId\<close>, has the body
  \<^verbatim>\<open>return 0;\<close>. None of them names a global, calls another function or touches one
  of its parameters.

  Each function is embedded as a function from its C arguments and the machine state
  before the call to the outcome of the call: either a fault, or the returned value
  together with the machine state after the call.
\<close>

subsection \<open>C types\<close>

text \<open>
  Every pointer type of the signatures (\<^verbatim>\<open>v8_inspector__Client__IMPL*\<close>,
  \<^verbatim>\<open>v8_inspector__Channel__IMPL*\<close>, \<^verbatim>\<open>void*\<close>, \<^verbatim>\<open>const char*\<close>,
  \<^verbatim>\<open>const StringView*\<close>, \<^verbatim>\<open>V8StackTrace*\<close>) is an address; the null pointer is
  address 0. \<^verbatim>\<open>int\<close> and \<^verbatim>\<open>unsigned\<close> are 32-bit words, \<^verbatim>\<open>size_t\<close> and
  \<^verbatim>\<open>int64_t\<close> are 64-bit words.
\<close>

type_synonym ptr = "64 word"
type_synonym c_int = "32 word"
type_synonym c_unsigned = "32 word"
type_synonym size_t = "64 word"
type_synonym int64_t = "64 word"
type_synonym byte = "8 word"

subsection \<open>Machine state and outcomes\<close>

text \<open>
  What a function with C linkage could observe or change outside its own frame: the
  mapped memory (globals, heap objects and the buffers behind the pointer arguments; an
  address that is not mapped holds \<open>None\<close>) and the bytes written so far to the
  process's output streams.
\<close>

record machine =
  heap :: "ptr \<rightharpoonup> byte"
  out_bytes :: "byte list"

text \<open>How a call could end other than by returning.\<close>

datatype fault = Segfault | Uncaught_exception

type_synonym 'a outcome = "fault + 'a \<times> machine"

subsection \<open>The nine stubs\<close>

text \<open>Lines 24-27: the body is \<^verbatim>\<open>return 0;\<close>.\<close>

definition v8_inspector__Client__IMPL__generateUniqueId ::
  "ptr \<Rightarrow> ptr \<Rightarrow> machine \<Rightarrow> int64_t outcome" where
  "v8_inspector__Client__IMPL__generateUniqueId self data s = Inr (0, s)"

text \<open>Lines 29-31: empty body.\<close>

definition v8_inspector__Client__IMPL__runMessageLoopOnPause ::
  "ptr \<Rightarrow> ptr \<Rightarrow> c_int \<Rightarrow> machine \<Rightarrow> unit outcome" where
  "v8_inspector__Client__IMPL__runMessageLoopOnPause self data contextGroupId s = Inr ((), s)"

text \<open>Lines 33-35: empty body.\<close>

definition v8_inspector__Client__IMPL__quitMessageLoopOnPause ::
  "ptr \<Rightarrow> ptr \<Rightarrow> machine \<Rightarrow> unit outcome" where
  "v8_inspector__Client__IMPL__quitMessageLoopOnPause self data s = Inr ((), s)"

text \<open>Lines 37-39: empty body.\<close>

definition v8_inspector__Client__IMPL__runIfWaitingForDebugger ::
  "ptr \<Rightarrow> ptr \<Rightarrow> c_int \<Rightarrow> machine \<Rightarrow> unit outcome" where
  "v8_inspector__Client__IMPL__runIfWaitingForDebugger self data contextGroupId s = Inr ((), s)"

text \<open>Lines 41-47: empty body.\<close>

definition v8_inspector__Client__IMPL__consoleAPIMessage ::
  "ptr \<Rightarrow> ptr \<Rightarrow> c_int \<Rightarrow> c_int \<Rightarrow> ptr \<Rightarrow> ptr \<Rightarrow> c_unsigned \<Rightarrow> c_unsigned \<Rightarrow> ptr
     \<Rightarrow> machine \<Rightarrow> unit outcome" where
  "v8_inspector__Client__IMPL__consoleAPIMessage self data contextGroupId level message url
     lineNumber columnNumber stackTrace s = Inr ((), s)"

text \<open>Lines 49-51: empty body.\<close>

definition v8_inspector__Client__IMPL__ensureDefaultContextInGroup ::
  "ptr \<Rightarrow> ptr \<Rightarrow> c_int \<Rightarrow> machine \<Rightarrow> unit outcome" where
  "v8_inspector__Client__IMPL__ensureDefaultContextInGroup self data contextGroupId s =
     Inr ((), s)"

text \<open>Lines 54-57: empty body.\<close>

definition v8_inspector__Channel__IMPL__sendResponse ::
  "ptr \<Rightarrow> ptr \<Rightarrow> c_int \<Rightarrow> ptr \<Rightarrow> size_t \<Rightarrow> machine \<Rightarrow> unit outcome" where
  "v8_inspector__Channel__IMPL__sendResponse self data callId message length' s = Inr ((), s)"

text \<open>Lines 59-62: empty body.\<close>

definition v8_inspector__Channel__IMPL__sendNotification ::
  "ptr \<Rightarrow> ptr \<Rightarrow> ptr \<Rightarrow> size_t \<Rightarrow> machine \<Rightarrow> unit outcome" where
  "v8_inspector__Channel__IMPL__sendNotification self data msg length' s = Inr ((), s)"

text \<open>Lines 64-66: empty body.\<close>

definition v8_inspector__Channel__IMPL__flushProtocolNotifications ::
  "ptr \<Rightarrow> ptr \<Rightarrow> machine \<Rightarrow> unit outcome" where
  "v8_inspector__Channel__IMPL__flushProtocolNotifications self data s = Inr ((), s)"

subsection \<open>The table of entry points, as the calling runtime sees it\<close>

text \<open>
  One call into the table: which symbol, with which arguments (in the order of the C
  signature).
\<close>

datatype stub_call =
    GenerateUniqueId ptr ptr
  | RunMessageLoopOnPause ptr ptr c_int
  | QuitMessageLoopOnPause ptr ptr
  | RunIfWaitingForDebugger ptr ptr c_int
  | ConsoleAPIMessage ptr ptr c_int c_int ptr ptr c_unsigned c_unsigned ptr
  | EnsureDefaultContextInGroup ptr ptr c_int
  | SendResponse ptr ptr c_int ptr size_t
  | SendNotification ptr ptr ptr size_t
  | FlushProtocolNotifications ptr ptr

text \<open>The symbol a call goes to, without its arguments.\<close>

datatype stub =
    Generate_unique_id
  | Run_message_loop_on_pause
  | Quit_message_loop_on_pause
  | Run_if_waiting_for_debugger
  | Console_API_message
  | Ensure_default_context_in_group
  | Send_response
  | Send_notification
  | Flush_protocol_notifications

fun stub_of :: "stub_call \<Rightarrow> stub" where
  "stub_of (GenerateUniqueId self data) = Generate_unique_id"
| "stub_of (RunMessageLoopOnPause self data g) = Run_message_loop_on_pause"
| "stub_of (QuitMessageLoopOnPause self data) = Quit_message_loop_on_pause"
| "stub_of (RunIfWaitingForDebugger self data g) = Run_if_waiting_for_debugger"
| "stub_of (ConsoleAPIMessage self data g lvl m u ln cn st) = Console_API_message"
| "stub_of (EnsureDefaultContextInGroup self data g) = Ensure_default_context_in_group"
| "stub_of (SendResponse self data cid m n) = Send_response"
| "stub_of (SendNotification self data m n) = Send_notification"
| "stub_of (FlushProtocolNotifications self data) = Flush_protocol_notifications"

text \<open>What a call hands back to the runtime: an \<^verbatim>\<open>int64_t\<close>, or nothing.\<close>

datatype retval = RInt64 int64_t | RVoid

definition returning :: "('a \<Rightarrow> retval) \<Rightarrow> 'a outcome \<Rightarrow> retval outcome" where
  "returning f out = (case out of Inl e \<Rightarrow> Inl e | Inr (v, s) \<Rightarrow> Inr (f v, s))"

fun invoke :: "stub_call \<Rightarrow> machine \<Rightarrow> retval outcome" where
  "invoke (GenerateUniqueId self data) s =
     returning RInt64 (v8_inspector__Client__IMPL__generateUniqueId self data s)"
| "invoke (RunMessageLoopOnPause self data g) s =
     returning (\<lambda>_. RVoid) (v8_inspector__Client__IMPL__runMessageLoopOnPause self data g s)"
| "invoke (QuitMessageLoopOnPause self data) s =
     returning (\<lambda>_. RVoid) (v8_inspector__Client__IMPL__quitMessageLoopOnPause self data s)"
| "invoke (RunIfWaitingForDebugger self data g) s =
     returning (\<lambda>_. RVoid) (v8_inspector__Client__IMPL__runIfWaitingForDebugger self data g s)"
| "invoke (ConsoleAPIMessage self data g lvl m u ln cn st) s =
     returning (\<lambda>_. RVoid)
       (v8_inspector__Client__IMPL__consoleAPIMessage self data g lvl m u ln cn st s)"
| "invoke (EnsureDefaultContextInGroup self data g) s =
     returning (\<lambda>_. RVoid)
       (v8_inspector__Client__IMPL__ensureDefaultContextInGroup self data g s)"
| "invoke (SendResponse self data cid m n) s =
     returning (\<lambda>_. RVoid) (v8_inspector__Channel__IMPL__sendResponse self data cid m n s)"
| "invoke (SendNotification self data m n) s =
     returning (\<lambda>_. RVoid) (v8_inspector__Channel__IMPL__sendNotification self data m n s)"
| "invoke (FlushProtocolNotifications self data) s =
     returning (\<lambda>_. RVoid)
       (v8_inspector__Channel__IMPL__flushProtocolNotifications self data s)"

text \<open>
  A caller making a sequence of calls, each on the machine state the previous one left;
  a fault ends the sequence.
\<close>

fun run_calls :: "stub_call list \<Rightarrow> machine \<Rightarrow> (retval list) outcome" where
  "run_calls [] s = Inr ([], s)"
| "run_calls (c # cs) s =
     (case invoke c s of
        Inl e \<Rightarrow> Inl e
      | Inr (r, s') \<Rightarrow>
          (case run_calls cs s' of
             Inl e \<Rightarrow> Inl e
           | Inr (rs, s'') \<Rightarrow> Inr (r # rs, s'')))"

subsection \<open>Observations on the machine state\<close>

text \<open>The \<open>n\<close> bytes of the buffer at \<open>p\<close>, as a caller reads them back.\<close>

definition buffer_bytes :: "machine \<Rightarrow> ptr \<Rightarrow> size_t \<Rightarrow> byte option list" where
  "buffer_bytes s p n = map (\<lambda>i. heap s (p + of_nat i)) [0..<unat n]"

text \<open>A caller placing a message in memory before the call.\<close>

fun store_bytes :: "machine \<Rightarrow> ptr \<Rightarrow> byte list \<Rightarrow> machine" where
  "store_bytes s p [] = s"
| "store_bytes s p (b # bs) = store_bytes (s\<lparr>heap := (heap s)(p \<mapsto> b)\<rparr>) (p + 1) bs"

text \<open>The outcome without the machine state, and the machine state without the value.\<close>

definition result_of :: "'a outcome \<Rightarrow> fault + 'a" where
  "result_of out = (case out of Inl e \<Rightarrow> Inl e | Inr (v, s) \<Rightarrow> Inr v)"

definition state_after :: "'a outcome \<Rightarrow> fault + machine" where
  "state_after out = (case out of Inl e \<Rightarrow> Inl e | Inr (v, s) \<Rightarrow> Inr s)"

section \<open>Properties\<close>

subsection \<open>Shared facts\<close>

lemmas stub_defs =
  v8_inspector__Client__IMPL__generateUniqueId_def
  v8_inspector__Client__IMPL__runMessageLoopOnPause_def
  v8_inspector__Client__IMPL__quitMessageLoopOnPause_def
  v8_inspector__Client__IMPL__runIfWaitingForDebugger_def
  v8_inspector__Client__IMPL__consoleAPIMessage_def
  v8_inspector__Client__IMPL__ensureDefaultContextInGroup_def
  v8_inspector__Channel__IMPL__sendResponse_def
  v8_inspector__Channel__IMPL__sendNotification_def
  v8_inspector__Channel__IMPL__flushProtocolNotifications_def

lemma invoke_value:
  "invoke c s =
     Inr (case c of GenerateUniqueId self data \<Rightarrow> RInt64 0 | _ \<Rightarrow> RVoid, s)"
  by (cases c) (simp_all add: stub_defs returning_def)

lemma run_calls_value:
  "run_calls cs s =
     Inr (map (\<lambda>c. case c of GenerateUniqueId self data \<Rightarrow> RInt64 0 | _ \<Rightarrow> RVoid) cs, s)"
  by (induction cs) (simp_all add: invoke_value)

lemma upt_unat_two: "[0..<unat (2::64 word)] = [0, 1]"
proof -
  have "unat (2::64 word) = Suc (Suc 0)" by simp
  then show ?thesis by (simp add: upt_rec)
qed

lemma buffer_bytes_store2:
  "buffer_bytes (store_bytes s p [a, b]) p 2 = [Some a, Some b]"
  unfolding buffer_bytes_def upt_unat_two by simp

subsection \<open>The generated identifier\<close>

text \<open>
  C1. Every call of \<^verbatim>\<open>v8_inspector__Client__IMPL__generateUniqueId\<close>, whatever the
  client handle, the context pointer and the machine state, returns the value 0 (and
  leaves the machine state as it found it).
\<close>

theorem generateUniqueId_returns_zero:
  "v8_inspector__Client__IMPL__generateUniqueId self data s = Inr (0, s)"
  by (simp add: v8_inspector__Client__IMPL__generateUniqueId_def)

subsection \<open>The stubs returning nothing\<close>

text \<open>
  C2. Each of the eight \<^verbatim>\<open>void\<close> stubs, on any arguments and in any machine state,
  returns normally (no fault) and leaves the machine state unchanged. In particular the
  bytes of any buffer, read back after the call, are the bytes that were there before:
  this is spelled out for the message buffers of \<^verbatim>\<open>sendResponse\<close> and
  \<^verbatim>\<open>sendNotification\<close>, and for an arbitrary address range in the case of
  \<^verbatim>\<open>consoleAPIMessage\<close>.
\<close>

theorem void_stubs_complete_without_mutation:
  "v8_inspector__Client__IMPL__runMessageLoopOnPause self data g s = Inr ((), s)
   \<and> v8_inspector__Client__IMPL__quitMessageLoopOnPause self data s = Inr ((), s)
   \<and> v8_inspector__Client__IMPL__runIfWaitingForDebugger self data g s = Inr ((), s)
   \<and> v8_inspector__Client__IMPL__consoleAPIMessage self data g lvl m u ln cn st s = Inr ((), s)
   \<and> v8_inspector__Client__IMPL__ensureDefaultContextInGroup self data g s = Inr ((), s)
   \<and> v8_inspector__Channel__IMPL__sendResponse self data cid m n s = Inr ((), s)
   \<and> v8_inspector__Channel__IMPL__sendNotification self data m n s = Inr ((), s)
   \<and> v8_inspector__Channel__IMPL__flushProtocolNotifications self data s = Inr ((), s)
   \<and> (case v8_inspector__Client__IMPL__consoleAPIMessage self data g lvl m u ln cn st s of
         Inl e \<Rightarrow> False
       | Inr (v, s') \<Rightarrow> buffer_bytes s' p k = buffer_bytes s p k)
   \<and> (case v8_inspector__Channel__IMPL__sendResponse self data cid m n s of
         Inl e \<Rightarrow> False
       | Inr (v, s') \<Rightarrow> buffer_bytes s' m n = buffer_bytes s m n)
   \<and> (case v8_inspector__Channel__IMPL__sendNotification self data m n s of
         Inl e \<Rightarrow> False
       | Inr (v, s') \<Rightarrow> buffer_bytes s' m n = buffer_bytes s m n)"
  by (simp add: stub_defs)

subsection \<open>The end-to-end scenario\<close>

text \<open>
  C3. The caller places the two bytes of the message \<^verbatim>\<open>{}\<close> at \<open>msg\<close> and calls
  \<^verbatim>\<open>sendResponse\<close> with call id 42, that buffer and length 2. The call returns
  normally; the machine state after it is the state before it; nothing has been added to
  the output; and the buffer still holds \<^verbatim>\<open>{\<close> (0x7B) and \<^verbatim>\<open>}\<close> (0x7D).
\<close>

theorem sendResponse_scenario:
  "v8_inspector__Channel__IMPL__sendResponse self data 42 msg 2
       (store_bytes s msg (map of_char ''{}''))
     = Inr ((), store_bytes s msg (map of_char ''{}''))
   \<and> buffer_bytes (store_bytes s msg (map of_char ''{}'')) msg 2 = [Some 0x7B, Some 0x7D]
   \<and> (case v8_inspector__Channel__IMPL__sendResponse self data 42 msg 2
              (store_bytes s msg (map of_char ''{}'')) of
         Inl e \<Rightarrow> False
       | Inr (v, s') \<Rightarrow>
           out_bytes s' = out_bytes s
           \<and> buffer_bytes s' msg 2 = [Some 0x7B, Some 0x7D])"
proof -
  have m: "map of_char ''{}'' = [0x7B, 0x7D :: byte]"
    by simp
  have b: "buffer_bytes (store_bytes s msg [0x7B, 0x7D]) msg 2 = [Some 0x7B, Some 0x7D]"
    by (rule buffer_bytes_store2)
  show ?thesis
    unfolding m v8_inspector__Channel__IMPL__sendResponse_def
    using b by simp
qed

subsection \<open>Repetition\<close>

text \<open>
  C4. Whatever the stub, its arguments and the number \<open>n\<close>: \<open>n\<close> calls in a row all
  return, each with the result \<open>r\<close> of a single call, and the machine state at the end
  is the state at the start, as after one call. No call changes what a later call does:
  any call \<open>d\<close> made after the \<open>n\<close> calls gives what it gives when made first.
\<close>

theorem repeated_calls_idempotent:
  "\<exists>r r'. invoke c s = Inr (r, s)
     \<and> invoke d s = Inr (r', s)
     \<and> run_calls (replicate n c) s = Inr (replicate n r, s)
     \<and> run_calls (replicate n c @ [d]) s = Inr (replicate n r @ [r'], s)"
  by (simp add: invoke_value run_calls_value)

subsection \<open>No error outcome\<close>

text \<open>
  C5. No call of a stub ends in a fault, whatever its arguments and the machine state:
  the one outcome of a call is the normal return, with the result fixed by the symbol
  alone (0 for \<^verbatim>\<open>generateUniqueId\<close>, nothing for the others).
\<close>

theorem stubs_never_fail:
  "invoke c s \<noteq> Inl e
   \<and> result_of (invoke c s) =
       Inr (case c of GenerateUniqueId self data \<Rightarrow> RInt64 0 | _ \<Rightarrow> RVoid)
   \<and> result_of (invoke c s) \<noteq> Inl e"
  by (simp add: invoke_value result_of_def)

subsection \<open>Frame\<close>

text \<open>
  C6. A call writes nothing outside its frame: memory and output after the call are
  those before it. It reads nothing outside its frame: its result is the same in any two
  machine states. And it dereferences none of its handles: the call returns, with the
  state unchanged, even when no address at all is mapped.
\<close>

theorem stubs_touch_nothing_outside_frame:
  "state_after (invoke c s) = Inr s
   \<and> result_of (invoke c s) = result_of (invoke c s')
   \<and> state_after (invoke c \<lparr>heap = Map.empty, out_bytes = bs\<rparr>) =
       Inr \<lparr>heap = Map.empty, out_bytes = bs\<rparr>"
  by (simp add: invoke_value result_of_def state_after_def)

subsection \<open>Null pointers\<close>

text \<open>
  C8. With every pointer argument null (self handle, data pointer, message buffer,
  string views, stack trace), whatever the other arguments and the machine state, each
  of the nine stubs returns normally, and \<^verbatim>\<open>generateUniqueId\<close> returns 0.
\<close>

theorem stubs_tolerate_null_pointers:
  "v8_inspector__Client__IMPL__generateUniqueId 0 0 s = Inr (0, s)
   \<and> v8_inspector__Client__IMPL__runMessageLoopOnPause 0 0 g s = Inr ((), s)
   \<and> v8_inspector__Client__IMPL__quitMessageLoopOnPause 0 0 s = Inr ((), s)
   \<and> v8_inspector__Client__IMPL__runIfWaitingForDebugger 0 0 g s = Inr ((), s)
   \<and> v8_inspector__Client__IMPL__consoleAPIMessage 0 0 g lvl 0 0 ln cn 0 s = Inr ((), s)
   \<and> v8_inspector__Client__IMPL__ensureDefaultContextInGroup 0 0 g s = Inr ((), s)
   \<and> v8_inspector__Channel__IMPL__sendResponse 0 0 cid 0 n s = Inr ((), s)
   \<and> v8_inspector__Channel__IMPL__sendNotification 0 0 0 n s = Inr ((), s)
   \<and> v8_inspector__Channel__IMPL__flushProtocolNotifications 0 0 s = Inr ((), s)"
  by (simp add: stub_defs)

subsection \<open>The identifiers are not unique\<close>

text \<open>
  C9. Two calls of \<^verbatim>\<open>generateUniqueId\<close>, the second made in the state the first
  left, with equal or different client handles and context pointers, both return, and
  return the same value, 0. The same holds of two calls made in unrelated states.
\<close>

theorem generateUniqueId_ids_coincide:
  "(case v8_inspector__Client__IMPL__generateUniqueId self data s of
      Inl e \<Rightarrow> False
    | Inr (v, s1) \<Rightarrow>
        (case v8_inspector__Client__IMPL__generateUniqueId self' data' s1 of
           Inl e \<Rightarrow> False
         | Inr (v', s2) \<Rightarrow> v' = v \<and> v = 0))
   \<and> result_of (v8_inspector__Client__IMPL__generateUniqueId self data s) =
       result_of (v8_inspector__Client__IMPL__generateUniqueId self' data' s')"
  by (simp add: v8_inspector__Client__IMPL__generateUniqueId_def result_of_def)

subsection \<open>Independence of the inputs\<close>

text \<open>
  C10. Two calls of the same stub, with any arguments and in any machine states, have
  the same result, and each leaves its machine state unchanged: no argument and nothing
  in memory flows to the result or to the effect.
\<close>

theorem stub_outcome_independent_of_inputs:
  "stub_of c = stub_of c' \<Longrightarrow>
     result_of (invoke c s) = result_of (invoke c' s')
     \<and> state_after (invoke c s) = Inr s
     \<and> state_after (invoke c' s') = Inr s'"
  by (cases c; cases c') (simp_all add: invoke_value result_of_def state_after_def)

text \<open>
  An instance: two calls of \<^verbatim>\<open>consoleAPIMessage\<close> that differ in every argument,
  made in different machine states.
\<close>

theorem stub_outcome_independent_of_inputs_witness:
  "stub_of (ConsoleAPIMessage 0x1000 0x2000 1 3 0x3000 0x4000 10 20 0x5000)
     = stub_of (ConsoleAPIMessage 0 0 7 0 0 0 0 0 0)
   \<and> result_of (invoke (ConsoleAPIMessage 0x1000 0x2000 1 3 0x3000 0x4000 10 20 0x5000)
         \<lparr>heap = Map.empty, out_bytes = []\<rparr>)
     = result_of (invoke (ConsoleAPIMessage 0 0 7 0 0 0 0 0 0)
         \<lparr>heap = [0x3000 \<mapsto> 0x41], out_bytes = [0x42]\<rparr>)
   \<and> state_after (invoke (ConsoleAPIMessage 0x1000 0x2000 1 3 0x3000 0x4000 10 20 0x5000)
         \<lparr>heap = Map.empty, out_bytes = []\<rparr>)
     = Inr \<lparr>heap = Map.empty, out_bytes = []\<rparr>
   \<and> state_after (invoke (ConsoleAPIMessage 0 0 7 0 0 0 0 0 0)
         \<lparr>heap = [0x3000 \<mapsto> 0x41], out_bytes = [0x42]\<rparr>)
     = Inr \<lparr>heap = [0x3000 \<mapsto> 0x41], out_bytes = [0x42]\<rparr>"
  using stub_outcome_independent_of_inputs
    [of "ConsoleAPIMessage 0x1000 0x2000 1 3 0x3000 0x4000 10 20 0x5000"
        "ConsoleAPIMessage 0 0 7 0 0 0 0 0 0"
        "\<lparr>heap = Map.empty, out_bytes = []\<rparr>"
        "\<lparr>heap = [0x3000 \<mapsto> 0x41], out_bytes = [0x42]\<rparr>"]
  by simp

end
